theory Spec2Isabelle
  imports Complex_Main "HOL-Library.Word"
begin

section \<open>Go values\<close>

text \<open>
  A Go \<^verbatim>\<open>string\<close> is a sequence of bytes and \<^verbatim>\<open>len\<close> counts bytes: it is a
  \<^typ>\<open>string\<close> here, and \<^const>\<open>length\<close> is \<^verbatim>\<open>len\<close>. Go's \<^verbatim>\<open>int\<close> and \<^verbatim>\<open>uint\<close> are
  machine integers, of 64 bits on the 64-bit platform modelled here: \<^verbatim>\<open>int\<close> is a
  64-bit word read through \<^const>\<open>sint\<close> and compared with \<open><s\<close>, \<^verbatim>\<open>uint\<close> a 64-bit
  word read through \<^const>\<open>unat\<close>; \<open>+\<close> and \<open>-\<close> wrap as Go's do. A \<^verbatim>\<open>float64\<close> price is
  a real number: the comparisons of the code are exact on the values they compare, and
  NaN, the infinities and rounding are outside the model. A \<^verbatim>\<open>time.Time\<close> is a
  number (a clock reading); every \<^verbatim>\<open>time.Now()\<close> of the code is a parameter
  \<open>now\<close> of the function that reads the clock.
\<close>

type_synonym go_int = "64 word"
type_synonym go_uint = "64 word"
type_synonym float64 = real
type_synonym Time = nat

text \<open>
  An \<^verbatim>\<open>error\<close> is either a plain error made by \<^verbatim>\<open>errors.New(msg)\<close> or a
  \<^verbatim>\<open>*DomainError{Code, Message, Field}\<close> of the package \<^verbatim>\<open>domain/errors\<close>; a
  \<^verbatim>\<open>nil\<close> error is \<^const>\<open>None\<close> of \<open>error option\<close>.
\<close>

datatype error =
    errors_New string
  | DomainError string string string

subsection \<open>The package \<^verbatim>\<open>strings\<close>\<close>

text \<open>
  \<^verbatim>\<open>strings.TrimSpace\<close> removes the leading and the trailing white space "as defined
  by Unicode" (\<^verbatim>\<open>unicode.IsSpace\<close>): the six ASCII bytes tab, line feed, vertical tab,
  form feed, carriage return and space, and the runes U+0085, U+00A0, U+1680,
  U+2000 .. U+200A, U+2028, U+2029, U+202F, U+205F and U+3000, which stand in a Go string
  as their UTF-8 encodings.
\<close>

definition asciiSpace :: "char \<Rightarrow> bool" where
  "asciiSpace c = (c \<in> set [CHR 0x09, CHR 0x0A, CHR 0x0B, CHR 0x0C, CHR 0x0D, CHR 0x20])"

definition unicodeSpaces :: "string list" where
  "unicodeSpaces =
    [[CHR 0xC2, CHR 0x85], [CHR 0xC2, CHR 0xA0], [CHR 0xE1, CHR 0x9A, CHR 0x80],
     [CHR 0xE2, CHR 0x80, CHR 0x80], [CHR 0xE2, CHR 0x80, CHR 0x81],
     [CHR 0xE2, CHR 0x80, CHR 0x82], [CHR 0xE2, CHR 0x80, CHR 0x83],
     [CHR 0xE2, CHR 0x80, CHR 0x84], [CHR 0xE2, CHR 0x80, CHR 0x85],
     [CHR 0xE2, CHR 0x80, CHR 0x86], [CHR 0xE2, CHR 0x80, CHR 0x87],
     [CHR 0xE2, CHR 0x80, CHR 0x88], [CHR 0xE2, CHR 0x80, CHR 0x89],
     [CHR 0xE2, CHR 0x80, CHR 0x8A], [CHR 0xE2, CHR 0x80, CHR 0xA8],
     [CHR 0xE2, CHR 0x80, CHR 0xA9], [CHR 0xE2, CHR 0x80, CHR 0xAF],
     [CHR 0xE2, CHR 0x81, CHR 0x9F], [CHR 0xE3, CHR 0x80, CHR 0x80]]"

text \<open>
  The number of bytes of the white-space rune a string starts with (ends with), and 0
  when its first (last) rune is no white space.
\<close>

definition spaceWidth :: "string \<Rightarrow> nat" where
  "spaceWidth s =
    (case s of
       [] \<Rightarrow> 0
     | c # _ \<Rightarrow>
         if asciiSpace c then 1
         else (case find (\<lambda>e. take (length e) s = e) unicodeSpaces of
                 None \<Rightarrow> 0
               | Some e \<Rightarrow> length e))"

definition lastSpaceWidth :: "string \<Rightarrow> nat" where
  "lastSpaceWidth s =
    (case rev s of
       [] \<Rightarrow> 0
     | c # _ \<Rightarrow>
         if asciiSpace c then 1
         else (case find (\<lambda>e. drop (length s - length e) s = e) unicodeSpaces of
                 None \<Rightarrow> 0
               | Some e \<Rightarrow> length e))"

function TrimLeft :: "string \<Rightarrow> string" where
  "TrimLeft s = (if spaceWidth s = 0 then s else TrimLeft (drop (spaceWidth s) s))"
  by pat_completeness auto
termination
  by (relation "measure length") (auto simp: spaceWidth_def split: list.splits)

function TrimRight :: "string \<Rightarrow> string" where
  "TrimRight s =
    (if lastSpaceWidth s = 0 then s else TrimRight (take (length s - lastSpaceWidth s) s))"
  by pat_completeness auto
termination
  by (relation "measure length") (auto simp: lastSpaceWidth_def split: list.splits)

declare TrimLeft.simps [simp del]
declare TrimRight.simps [simp del]

definition TrimSpace :: "string \<Rightarrow> string" where
  "TrimSpace s = TrimRight (TrimLeft s)"

text \<open>
  \<^verbatim>\<open>strings.ToUpper\<close>: a string of ASCII bytes only has its letters \<^verbatim>\<open>a\<close> .. \<^verbatim>\<open>z\<close>
  moved to \<^verbatim>\<open>A\<close> .. \<^verbatim>\<open>Z\<close>; a string with a byte of 0x80 or more goes through
  \<^verbatim>\<open>strings.Map(unicode.ToUpper, s)\<close>, whose case tables belong to the Go library:
  that mapping is the parameter \<open>unicodeUpper\<close>.
\<close>

definition isASCII :: "char \<Rightarrow> bool" where
  "isASCII c = ((of_char c :: nat) < 128)"

definition asciiUpper :: "char \<Rightarrow> char" where
  "asciiUpper c =
    (if (of_char (CHR ''a'') :: nat) \<le> of_char c \<and> (of_char c :: nat) \<le> of_char (CHR ''z'')
     then char_of ((of_char c :: nat) - 32) else c)"

definition ToUpper :: "(string \<Rightarrow> string) \<Rightarrow> string \<Rightarrow> string" where
  "ToUpper unicodeUpper s =
    (if list_all isASCII s then map asciiUpper s else unicodeUpper s)"

section \<open>The Product entity (package \<^verbatim>\<open>entities\<close>)\<close>

type_synonym ProductStatus = string

definition ProductStatusActive :: ProductStatus where
  "ProductStatusActive = ''active''"

definition ProductStatusInactive :: ProductStatus where
  "ProductStatusInactive = ''inactive''"

definition ProductStatusDiscontinued :: ProductStatus where
  "ProductStatusDiscontinued = ''discontinued''"

record Product =
  ID :: go_uint
  Name :: string
  Description :: string
  SKU :: string
  Price :: float64
  Category :: string
  Brand :: string
  Stock :: go_int
  Status :: ProductStatus
  CreatedAt :: Time
  UpdatedAt :: Time

definition IsActive :: "Product \<Rightarrow> bool" where
  "IsActive p = (Status p = ProductStatusActive)"

definition IsInStock :: "Product \<Rightarrow> bool" where
  "IsInStock p = (0 <s Stock p)"

definition IsAvailable :: "Product \<Rightarrow> bool" where
  "IsAvailable p = (IsActive p \<and> IsInStock p)"

text \<open>
  The methods have pointer receivers and change the entity in place. A method that
  cannot fail is a function from the entity to the entity; a method that returns an
  \<^verbatim>\<open>error\<close> gives the error (\<^const>\<open>None\<close> for \<^verbatim>\<open>nil\<close>) together with the entity
  as the call leaves it.
\<close>

definition Activate :: "Time \<Rightarrow> Product \<Rightarrow> Product" where
  "Activate now p = p\<lparr>Status := ProductStatusActive, UpdatedAt := now\<rparr>"

definition Deactivate :: "Time \<Rightarrow> Product \<Rightarrow> Product" where
  "Deactivate now p = p\<lparr>Status := ProductStatusInactive, UpdatedAt := now\<rparr>"

definition Discontinue :: "Time \<Rightarrow> Product \<Rightarrow> Product" where
  "Discontinue now p = p\<lparr>Status := ProductStatusDiscontinued, UpdatedAt := now\<rparr>"

definition UpdateStock :: "Time \<Rightarrow> go_int \<Rightarrow> Product \<Rightarrow> error option \<times> Product" where
  "UpdateStock now quantity p =
    (if quantity <s 0 then (Some (errors_New ''stock quantity cannot be negative''), p)
     else (None, p\<lparr>Stock := quantity, UpdatedAt := now\<rparr>))"

definition ReduceStock :: "Time \<Rightarrow> go_int \<Rightarrow> Product \<Rightarrow> error option \<times> Product" where
  "ReduceStock now quantity p =
    (if quantity \<le>s 0 then (Some (errors_New ''reduction quantity must be positive''), p)
     else if Stock p <s quantity then (Some (errors_New ''insufficient stock''), p)
     else (None, p\<lparr>Stock := Stock p - quantity, UpdatedAt := now\<rparr>))"

definition AddStock :: "Time \<Rightarrow> go_int \<Rightarrow> Product \<Rightarrow> error option \<times> Product" where
  "AddStock now quantity p =
    (if quantity \<le>s 0 then (Some (errors_New ''addition quantity must be positive''), p)
     else (None, p\<lparr>Stock := Stock p + quantity, UpdatedAt := now\<rparr>))"

definition UpdatePrice :: "Time \<Rightarrow> float64 \<Rightarrow> Product \<Rightarrow> error option \<times> Product" where
  "UpdatePrice now price p =
    (if price < 0 then (Some (errors_New ''price cannot be negative''), p)
     else (None, p\<lparr>Price := price, UpdatedAt := now\<rparr>))"

definition validateProductName :: "string \<Rightarrow> error option" where
  "validateProductName name0 =
    (let name = TrimSpace name0 in
     if name = [] then Some (errors_New ''product name is required'')
     else if length name < 2
       then Some (errors_New ''product name must be at least 2 characters long'')
     else if length name > 255
       then Some (errors_New ''product name must be less than 255 characters'')
     else None)"

definition validateSKU :: "string \<Rightarrow> error option" where
  "validateSKU sku0 =
    (let sku = TrimSpace sku0 in
     if sku = [] then Some (errors_New ''SKU is required'')
     else if length sku < 3 then Some (errors_New ''SKU must be at least 3 characters long'')
     else if length sku > 50 then Some (errors_New ''SKU must be less than 50 characters'')
     else None)"

definition validatePrice :: "float64 \<Rightarrow> error option" where
  "validatePrice price =
    (if price < 0 then Some (errors_New ''price cannot be negative'')
     else if price > 999999.99 then Some (errors_New ''price cannot exceed 999,999.99'')
     else None)"

definition validateStock :: "go_int \<Rightarrow> error option" where
  "validateStock stock =
    (if stock <s 0 then Some (errors_New ''stock cannot be negative'') else None)"

text \<open>
  \<^verbatim>\<open>NewProduct\<close> returns \<^verbatim>\<open>(nil, err)\<close> or \<^verbatim>\<open>(&Product{...}, nil)\<close>: a sum. The
  struct literal leaves \<^verbatim>\<open>ID\<close> at its zero value.
\<close>

definition NewProduct ::
  "(string \<Rightarrow> string) \<Rightarrow> Time \<Rightarrow> string \<Rightarrow> string \<Rightarrow> string \<Rightarrow> string \<Rightarrow> string \<Rightarrow>
   float64 \<Rightarrow> go_int \<Rightarrow> error + Product" where
  "NewProduct unicodeUpper now name description sku category brand price stock =
    (case validateProductName name of
       Some err \<Rightarrow> Inl err
     | None \<Rightarrow>
    (case validateSKU sku of
       Some err \<Rightarrow> Inl err
     | None \<Rightarrow>
    (case validatePrice price of
       Some err \<Rightarrow> Inl err
     | None \<Rightarrow>
    (case validateStock stock of
       Some err \<Rightarrow> Inl err
     | None \<Rightarrow>
    if TrimSpace category = [] then Inl (errors_New ''category is required'')
    else Inr \<lparr>ID = 0,
              Name = TrimSpace name,
              Description = TrimSpace description,
              SKU = ToUpper unicodeUpper (TrimSpace sku),
              Price = price,
              Category = TrimSpace category,
              Brand = TrimSpace brand,
              Stock = stock,
              Status = ProductStatusActive,
              CreatedAt = now,
              UpdatedAt = now\<rparr>))))"

section \<open>Domain errors (package \<^verbatim>\<open>domain/errors\<close>)\<close>

definition Sprintf_code_message :: "string \<Rightarrow> string \<Rightarrow> string" where
  "Sprintf_code_message c m = c @ '': '' @ m"

definition Sprintf_code_message_field :: "string \<Rightarrow> string \<Rightarrow> string \<Rightarrow> string" where
  "Sprintf_code_message_field c m f = c @ '': '' @ m @ '' (field: '' @ f @ '')''"

text \<open>The method \<^verbatim>\<open>Error()\<close> of an error: the message of a plain error, and
  \<^verbatim>\<open>(*DomainError).Error\<close>.\<close>

fun Error :: "error \<Rightarrow> string" where
  "Error (errors_New msg) = msg"
| "Error (DomainError c m f) =
    (if f \<noteq> [] then Sprintf_code_message_field c m f else Sprintf_code_message c m)"

definition ErrProductNotFound :: error where
  "ErrProductNotFound = DomainError ''PRODUCT_NOT_FOUND'' ''Product not found'' []"

definition ErrProductAlreadyExists :: error where
  "ErrProductAlreadyExists =
    DomainError ''PRODUCT_ALREADY_EXISTS'' ''Product with this SKU already exists'' ''sku''"

definition ErrInvalidProductSKU :: error where
  "ErrInvalidProductSKU = DomainError ''INVALID_SKU'' ''Invalid SKU format'' ''sku''"

definition ErrFailedToCheckProductExistance :: error where
  "ErrFailedToCheckProductExistance =
    DomainError ''FAILED_TO_CHECK_PRODUCT_EXISTENCE'' ''failed to check product existence'' []"

definition ErrFailedToCreateProduct :: error where
  "ErrFailedToCreateProduct =
    DomainError ''FAILED_TO_CREATE_PRODUCT'' ''failed to create product'' []"

definition NewProductValidationError :: "string \<Rightarrow> string \<Rightarrow> error" where
  "NewProductValidationError field message = DomainError ''VALIDATION_ERROR'' message field"

section \<open>Data transfer objects (package \<^verbatim>\<open>dto\<close>)\<close>

text \<open>
  The fields of the three structs carry the struct's name in front of the Go field
  name, since a record field is a constant of the theory. A pointer field
  (\<^verbatim>\<open>*float64\<close>, \<^verbatim>\<open>*int\<close>) is an option.
\<close>

record CreateProductRequestDTO =
  create_Name :: string
  create_Description :: string
  create_SKU :: string
  create_Price :: float64
  create_Category :: string
  create_Brand :: string
  create_Stock :: go_int

record UpdateProductRequestDTO =
  update_Name :: string
  update_Description :: string
  update_Category :: string
  update_Brand :: string
  update_Price :: "float64 option"
  update_Stock :: "go_int option"

record ProductResponseDTO =
  resp_ID :: go_uint
  resp_Name :: string
  resp_Description :: string
  resp_SKU :: string
  resp_Price :: float64
  resp_Category :: string
  resp_Brand :: string
  resp_Stock :: go_int
  resp_Status :: ProductStatus
  resp_IsActive :: bool
  resp_IsInStock :: bool
  resp_IsAvailable :: bool
  resp_CreatedAt :: Time
  resp_UpdatedAt :: Time


definition ToEntity ::
  "(string \<Rightarrow> string) \<Rightarrow> Time \<Rightarrow> CreateProductRequestDTO \<Rightarrow> error + Product" where
  "ToEntity unicodeUpper now dto =
    NewProduct unicodeUpper now (create_Name dto) (create_Description dto) (create_SKU dto)
      (create_Category dto) (create_Brand dto) (create_Price dto) (create_Stock dto)"

definition ProductToResponseDTO :: "Product \<Rightarrow> ProductResponseDTO" where
  "ProductToResponseDTO product =
    \<lparr>resp_ID = ID product,
     resp_Name = Name product,
     resp_Description = Description product,
     resp_SKU = SKU product,
     resp_Price = Price product,
     resp_Category = Category product,
     resp_Brand = Brand product,
     resp_Stock = Stock product,
     resp_Status = Status product,
     resp_IsActive = IsActive product,
     resp_IsInStock = IsInStock product,
     resp_IsAvailable = IsAvailable product,
     resp_CreatedAt = CreatedAt product,
     resp_UpdatedAt = UpdatedAt product\<rparr>"

section \<open>The persistence port (package \<^verbatim>\<open>ports\<close>)\<close>

text \<open>
  \<^verbatim>\<open>ports.ProductRepository\<close> is an interface of four methods. An implementation
  is a record of four functions over the state \<open>'s\<close> of its store: each takes the
  store, and returns its result (the error on the left) and the store as the call
  leaves it. The \<^verbatim>\<open>context.Context\<close> argument carries cancellation only and is
  left out.
\<close>

record 's ProductRepository =
  Create :: "Product \<Rightarrow> 's \<Rightarrow> (error + Product) \<times> 's"
  GetByID :: "go_uint \<Rightarrow> 's \<Rightarrow> (error + Product) \<times> 's"
  GetBySKU :: "string \<Rightarrow> 's \<Rightarrow> (error + Product) \<times> 's"
  ExistsBySKU :: "string \<Rightarrow> 's \<Rightarrow> (error + bool) \<times> 's"

text \<open>The calls a use case makes on the port, in the order it makes them.\<close>

datatype port_call =
    Call_Create Product
  | Call_GetByID go_uint
  | Call_GetBySKU string
  | Call_ExistsBySKU string

section \<open>The use cases (package \<^verbatim>\<open>usecases\<close>)\<close>

text \<open>
  A use case takes the port, the clock readings its entity operations make, its
  arguments and the store; it returns the response (the error on the left), the store
  as it leaves it, and the port calls it made. The calls on the logger have no effect
  on any of these and are left out. \<^verbatim>\<open>errors.Is(err, target)\<close> on a
  \<^verbatim>\<open>*DomainError\<close> target is equality with the target.
\<close>

definition CreateProduct ::
  "'s ProductRepository \<Rightarrow> (string \<Rightarrow> string) \<Rightarrow> Time \<Rightarrow> CreateProductRequestDTO \<Rightarrow> 's \<Rightarrow>
   (error + ProductResponseDTO) \<times> 's \<times> port_call list" where
  "CreateProduct productRepo unicodeUpper now request s =
    (case validateSKU (create_SKU request) of
       Some err \<Rightarrow> (Inl ErrInvalidProductSKU, s, [])
     | None \<Rightarrow>
    (case ExistsBySKU productRepo (create_SKU request) s of
       (Inl err, s1) \<Rightarrow>
         (Inl ErrFailedToCheckProductExistance, s1, [Call_ExistsBySKU (create_SKU request)])
     | (Inr exists, s1) \<Rightarrow>
    if exists
    then (Inl ErrProductAlreadyExists, s1, [Call_ExistsBySKU (create_SKU request)])
    else
    (case ToEntity unicodeUpper now request of
       Inl err \<Rightarrow> (Inl err, s1, [Call_ExistsBySKU (create_SKU request)])
     | Inr domainEntity \<Rightarrow>
    (case Create productRepo domainEntity s1 of
       (Inl err, s2) \<Rightarrow>
         (if err = ErrFailedToCheckProductExistance
          then Inl ErrFailedToCheckProductExistance
          else Inl ErrFailedToCreateProduct,
          s2, [Call_ExistsBySKU (create_SKU request), Call_Create domainEntity])
     | (Inr createdProduct, s2) \<Rightarrow>
         (Inr (ProductToResponseDTO createdProduct),
          s2, [Call_ExistsBySKU (create_SKU request), Call_Create domainEntity])))))"

text \<open>
  \<^verbatim>\<open>UpdateProduct\<close> reads the clock in \<^verbatim>\<open>UpdatePrice\<close> (\<open>nowPrice\<close>) and in
  \<^verbatim>\<open>UpdateStock\<close> (\<open>nowStock\<close>). After the field updates the code has
  \<^verbatim>\<open>updatedProduct := existingProduct\<close> and no further call on the port.
\<close>

definition UpdateProduct ::
  "'s ProductRepository \<Rightarrow> Time \<Rightarrow> Time \<Rightarrow> go_uint \<Rightarrow> UpdateProductRequestDTO \<Rightarrow> 's \<Rightarrow>
   (error + ProductResponseDTO) \<times> 's \<times> port_call list" where
  "UpdateProduct productRepo nowPrice nowStock id0 request s =
    (case GetByID productRepo id0 s of
       (Inl err, s1) \<Rightarrow> (Inl err, s1, [Call_GetByID id0])
     | (Inr existingProduct, s1) \<Rightarrow>
    (let p1 = (if update_Name request \<noteq> []
               then existingProduct\<lparr>Name := update_Name request\<rparr> else existingProduct);
         p2 = (if update_Description request \<noteq> []
               then p1\<lparr>Description := update_Description request\<rparr> else p1);
         p3 = (if update_Category request \<noteq> []
               then p2\<lparr>Category := update_Category request\<rparr> else p2);
         p4 = (if update_Brand request \<noteq> []
               then p3\<lparr>Brand := update_Brand request\<rparr> else p3);
         (errPrice, p5) = (case update_Price request of
                             None \<Rightarrow> (None, p4)
                           | Some price \<Rightarrow> UpdatePrice nowPrice price p4)
     in
     (case errPrice of
        Some err \<Rightarrow> (Inl (NewProductValidationError ''price'' (Error err)), s1, [Call_GetByID id0])
      | None \<Rightarrow>
     (let (errStock, p6) = (case update_Stock request of
                              None \<Rightarrow> (None, p5)
                            | Some stock \<Rightarrow> UpdateStock nowStock stock p5)
      in
      (case errStock of
         Some err \<Rightarrow> (Inl (NewProductValidationError ''stock'' (Error err)), s1, [Call_GetByID id0])
       | None \<Rightarrow>
      (let updatedProduct = p6
       in (Inr (ProductToResponseDTO updatedProduct), s1, [Call_GetByID id0])))))))"


section \<open>A store behind the port (package \<^verbatim>\<open>product_repository\<close>)\<close>

text \<open>
  \<^verbatim>\<open>GormProductRepository\<close> implements the port on a database table. The table is
  a list of rows here (\<^verbatim>\<open>toModel\<close> and \<^verbatim>\<open>toEntity\<close> copy a row field by field, so
  a row is a \<^typ>\<open>Product\<close>, and every entity the port returns is a copy of a row);
  \<^verbatim>\<open>WHERE sku = ?\<close> and \<^verbatim>\<open>WHERE id = ?\<close> are equality; the database gives a
  row whose \<^verbatim>\<open>ID\<close> is zero the next number of its sequence; it does not fail
  otherwise.
\<close>

type_synonym table = "Product list"

definition gorm_ExistsBySKU :: "string \<Rightarrow> table \<Rightarrow> (error + bool) \<times> table" where
  "gorm_ExistsBySKU sku db = (Inr (0 < length (filter (\<lambda>row. SKU row = sku) db)), db)"

definition gorm_GetByID :: "go_uint \<Rightarrow> table \<Rightarrow> (error + Product) \<times> table" where
  "gorm_GetByID id0 db =
    (case find (\<lambda>row. ID row = id0) db of
       None \<Rightarrow> (Inl ErrProductNotFound, db)
     | Some model \<Rightarrow> (Inr model, db))"

definition gorm_GetBySKU :: "string \<Rightarrow> table \<Rightarrow> (error + Product) \<times> table" where
  "gorm_GetBySKU sku db =
    (case find (\<lambda>row. SKU row = sku) db of
       None \<Rightarrow> (Inl ErrProductNotFound, db)
     | Some model \<Rightarrow> (Inr model, db))"

definition gorm_Create :: "Product \<Rightarrow> table \<Rightarrow> (error + Product) \<times> table" where
  "gorm_Create product db =
    (case gorm_ExistsBySKU (SKU product) db of
       (Inl err, db1) \<Rightarrow> (Inl err, db1)
     | (Inr exists, db1) \<Rightarrow>
         if exists then (Inl ErrProductAlreadyExists, db1)
         else (let gormModel =
                     (if ID product = 0 then product\<lparr>ID := of_nat (length db1) + 1\<rparr>
                      else product)
               in (Inr gormModel, db1 @ [gormModel])))"

definition GormProductRepository :: "table ProductRepository" where
  "GormProductRepository =
    \<lparr>Create = gorm_Create, GetByID = gorm_GetByID, GetBySKU = gorm_GetBySKU,
     ExistsBySKU = gorm_ExistsBySKU\<rparr>"

section \<open>Fixtures and the constraints of the data model\<close>

text \<open>
  The product of the use-case tests (\<^verbatim>\<open>existingProduct\<close> of
  \<^verbatim>\<open>TestProductUseCases_UpdateProduct_Success\<close>); the struct literal leaves the two
  timestamps at their zero value.
\<close>

definition existingProduct :: Product where
  "existingProduct =
    \<lparr>ID = 1, Name = ''iPhone 15'', Description = ''Latest Apple smartphone'',
     SKU = ''IPH15-128GB'', Price = 999.99, Category = ''Electronics'', Brand = ''Apple'',
     Stock = 100, Status = ProductStatusActive, CreatedAt = 0, UpdatedAt = 0\<rparr>"

text \<open>
  The request of \<^verbatim>\<open>TestProductUseCases_CreateProduct_Success\<close>, and the same request
  with its SKU in lower case between two spaces.
\<close>

definition createRequest :: CreateProductRequestDTO where
  "createRequest =
    \<lparr>create_Name = ''iPhone 15'', create_Description = ''Latest Apple smartphone'',
     create_SKU = ''IPH15-128GB'', create_Price = 999.99, create_Category = ''Electronics'',
     create_Brand = ''Apple'', create_Stock = 100\<rparr>"

definition lowerCaseRequest :: CreateProductRequestDTO where
  "lowerCaseRequest = createRequest\<lparr>create_SKU := '' iph15-128gb ''\<rparr>"

text \<open>
  The request of \<^verbatim>\<open>TestProductUseCases_UpdateProduct_Success\<close>.
\<close>

definition updateRequest :: UpdateProductRequestDTO where
  "updateRequest =
    \<lparr>update_Name = ''iPhone 15 Pro'', update_Description = ''Updated description'',
     update_Category = [], update_Brand = [], update_Price = Some 899.99,
     update_Stock = Some 150\<rparr>"

text \<open>
  A port whose existence check fails, as the mock of
  \<^verbatim>\<open>TestProductUseCases_CreateProduct_RepositoryExistsError\<close> does with
  \<^verbatim>\<open>assert.AnError\<close>.
\<close>

definition failingRepository :: "table ProductRepository" where
  "failingRepository =
    GormProductRepository
      \<lparr>ExistsBySKU :=
         \<lambda>sku db. (Inl (errors_New ''assert.AnError general error for testing''), db)\<rparr>"




section \<open>The entity\<close>

lemma sint_sub_no_wrap:
  fixes a b :: "64 word"
  assumes "0 <s b" and "b \<le>s a"
  shows "sint (a - b) = sint a - sint b"
proof -
  have hi: "sint a < 2 ^ 63"
    using sint_lt [of a] by simp
  from assms have pos: "0 < sint b" and le: "sint b \<le> sint a"
    by (simp_all add: word_sless_alt word_sle_eq)
  have "sint (a - b) = signed_take_bit 63 (sint a - sint b)"
    by (simp add: sint_word_ariths)
  also have "\<dots> = sint a - sint b"
    using hi pos le by (intro signed_take_bit_int_eq_self) auto
  finally show ?thesis .
qed





text \<open>
  Claim C3. A negative price passed to \<^verbatim>\<open>UpdatePrice\<close> and a negative quantity
  passed to \<^verbatim>\<open>UpdateStock\<close> make the operation return an error and leave the whole
  entity (stock, price, status, updated-at and every other field) as it was.
\<close>

theorem negative_update_rejected:
  "(price < 0 \<longrightarrow>
      UpdatePrice now price p = (Some (errors_New ''price cannot be negative''), p)) \<and>
   (quantity <s 0 \<longrightarrow>
      UpdateStock now quantity p =
        (Some (errors_New ''stock quantity cannot be negative''), p))"
  by (simp add: UpdatePrice_def UpdateStock_def)

theorem negative_update_rejected_witness:
  "UpdatePrice 5 (- 10) existingProduct =
     (Some (errors_New ''price cannot be negative''), existingProduct) \<and>
   UpdateStock 5 (- 1) existingProduct =
     (Some (errors_New ''stock quantity cannot be negative''), existingProduct)"
proof -
  have "(- 10 :: real) < 0" and "(- 1 :: 64 word) <s 0"
    by (simp_all add: word_sless_alt)
  with negative_update_rejected [of "- 10" 5 existingProduct "- 1"]
  show ?thesis by blast
qed

text \<open>
  Claim C4. \<^verbatim>\<open>ReduceStock\<close> fails with the invalid-quantity error when the amount is
  zero or negative; for a positive amount above the current stock it fails with the
  insufficient-stock error; in both cases the entity is as it was (so a reduction by 10
  of a stock of 5 leaves the stock at 5). Otherwise it subtracts the amount from the
  stock, without wrap-around, and sets updated-at to the clock reading.
\<close>

theorem ReduceStock_cases:
  "(amount \<le>s 0 \<longrightarrow>
      ReduceStock now amount p =
        (Some (errors_New ''reduction quantity must be positive''), p)) \<and>
   (0 <s amount \<and> Stock p <s amount \<longrightarrow>
      ReduceStock now amount p = (Some (errors_New ''insufficient stock''), p)) \<and>
   (0 <s amount \<and> amount \<le>s Stock p \<longrightarrow>
      ReduceStock now amount p =
        (None, p\<lparr>Stock := Stock p - amount, UpdatedAt := now\<rparr>) \<and>
      sint (Stock p - amount) = sint (Stock p) - sint amount)"
  using sint_sub_no_wrap [of amount "Stock p"]
  by (auto simp: ReduceStock_def word_sless_alt word_sle_eq)

theorem ReduceStock_cases_witness:
  "ReduceStock 5 10 (existingProduct\<lparr>Stock := 5\<rparr>) =
     (Some (errors_New ''insufficient stock''), existingProduct\<lparr>Stock := 5\<rparr>) \<and>
   Stock (snd (ReduceStock 5 10 (existingProduct\<lparr>Stock := 5\<rparr>))) = 5 \<and>
   ReduceStock 5 0 existingProduct =
     (Some (errors_New ''reduction quantity must be positive''), existingProduct) \<and>
   ReduceStock 5 30 existingProduct =
     (None, existingProduct\<lparr>Stock := 70, UpdatedAt := 5\<rparr>)"
proof -
  have a: "(0 :: 64 word) <s 10 \<and> Stock (existingProduct\<lparr>Stock := 5\<rparr>) <s 10"
    and b: "(0 :: 64 word) \<le>s 0"
    and c: "(0 :: 64 word) <s 30 \<and> 30 \<le>s Stock existingProduct"
    and d: "Stock existingProduct - 30 = 70"
    by (simp_all add: existingProduct_def word_sless_alt word_sle_eq)
  from a ReduceStock_cases [of 10 5 "existingProduct\<lparr>Stock := 5\<rparr>"]
  have "ReduceStock 5 10 (existingProduct\<lparr>Stock := 5\<rparr>) =
      (Some (errors_New ''insufficient stock''), existingProduct\<lparr>Stock := 5\<rparr>)"
    by blast
  moreover from b ReduceStock_cases [of 0 5 existingProduct]
  have "ReduceStock 5 0 existingProduct =
      (Some (errors_New ''reduction quantity must be positive''), existingProduct)"
    by blast
  moreover from c ReduceStock_cases [of 30 5 existingProduct]
  have "ReduceStock 5 30 existingProduct =
      (None, existingProduct\<lparr>Stock := Stock existingProduct - 30, UpdatedAt := 5\<rparr>)"
    by blast
  ultimately show ?thesis by (simp add: d)
qed

text \<open>
  Claim C5. For every product and every \<open>n\<close> that does not exceed its stock,
  \<^verbatim>\<open>ReduceStock(n)\<close> followed by \<^verbatim>\<open>AddStock(n)\<close> on the same entity leaves the stock
  at its original value; for a positive \<open>n\<close> both calls succeed (for \<open>n\<close> zero or
  negative both fail and change nothing).
\<close>

theorem ReduceStock_AddStock_roundtrip:
  assumes "n \<le>s Stock p"
  shows "Stock (snd (AddStock now2 n (snd (ReduceStock now1 n p)))) = Stock p \<and>
    (0 <s n \<longrightarrow> fst (ReduceStock now1 n p) = None \<and>
       fst (AddStock now2 n (snd (ReduceStock now1 n p))) = None)"
proof (cases "n \<le>s 0")
  case True
  then show ?thesis
    by (simp add: AddStock_def ReduceStock_def word_sless_alt word_sle_eq)
next
  case False
  with assms have "\<not> Stock p <s n"
    by (simp add: word_sless_alt word_sle_eq)
  with False show ?thesis
    by (simp add: AddStock_def ReduceStock_def)
qed

theorem ReduceStock_AddStock_roundtrip_witness:
  "Stock (snd (AddStock 6 30 (snd (ReduceStock 5 30 existingProduct)))) = 100 \<and>
   fst (ReduceStock 5 30 existingProduct) = None \<and>
   fst (AddStock 6 30 (snd (ReduceStock 5 30 existingProduct))) = None"
proof -
  have le: "(30 :: 64 word) \<le>s Stock existingProduct" and pos: "(0 :: 64 word) <s 30"
    and stock: "Stock existingProduct = 100"
    by (simp_all add: existingProduct_def word_sless_alt word_sle_eq)
  from ReduceStock_AddStock_roundtrip [OF le, of 6 5] pos stock
  show ?thesis by simp
qed

text \<open>
  The status transitions and the stock operations leave the price alone, and
  \<^verbatim>\<open>UpdatePrice\<close> keeps a price that is not negative: the lower bound of the price
  range is kept by every operation.
\<close>

lemma operations_keep_price:
  "Price (Activate now p) = Price p"
  "Price (Deactivate now p) = Price p"
  "Price (Discontinue now p) = Price p"
  "Price (snd (UpdateStock now quantity p)) = Price p"
  "Price (snd (ReduceStock now quantity p)) = Price p"
  "Price (snd (AddStock now quantity p)) = Price p"
  by (simp_all add: Activate_def Deactivate_def Discontinue_def UpdateStock_def
      ReduceStock_def AddStock_def)

lemma UpdatePrice_keeps_lower_bound:
  assumes "0 \<le> Price p"
  shows "0 \<le> Price (snd (UpdatePrice now price p))"
  using assms by (simp add: UpdatePrice_def)

text \<open>
  Claim C9, at an input where the code leaves the price range. A product made by the
  factory with price 100 takes \<^verbatim>\<open>UpdatePrice(1000000)\<close> without error and then holds
  a price above 999999.99, the value that \<^verbatim>\<open>validatePrice\<close> rejects at
  construction.
\<close>

theorem UpdatePrice_exceeds_bound:
  "NewProduct (\<lambda>s. s) 1 ''Product Name'' ''Description'' ''SKU123'' ''Category'' ''Brand'' 100 10 =
     Inr \<lparr>ID = 0, Name = ''Product Name'', Description = ''Description'', SKU = ''SKU123'',
          Price = 100, Category = ''Category'', Brand = ''Brand'', Stock = 10,
          Status = ''active'', CreatedAt = 1, UpdatedAt = 1\<rparr> \<and>
   UpdatePrice 2 1000000
     \<lparr>ID = 0, Name = ''Product Name'', Description = ''Description'', SKU = ''SKU123'',
      Price = 100, Category = ''Category'', Brand = ''Brand'', Stock = 10,
      Status = ''active'', CreatedAt = 1, UpdatedAt = 1\<rparr> =
     (None,
      \<lparr>ID = 0, Name = ''Product Name'', Description = ''Description'', SKU = ''SKU123'',
       Price = 1000000, Category = ''Category'', Brand = ''Brand'', Stock = 10,
       Status = ''active'', CreatedAt = 1, UpdatedAt = 2\<rparr>) \<and>
   (999999.99 :: real) < 1000000 \<and>
   validatePrice 1000000 = Some (errors_New ''price cannot exceed 999,999.99'')"
proof -
  have "NewProduct (\<lambda>s. s) 1 ''Product Name'' ''Description'' ''SKU123'' ''Category'' ''Brand''
      100 10 =
     Inr \<lparr>ID = 0, Name = ''Product Name'', Description = ''Description'', SKU = ''SKU123'',
          Price = 100, Category = ''Category'', Brand = ''Brand'', Stock = 10,
          Status = ''active'', CreatedAt = 1, UpdatedAt = 1\<rparr>"
    by code_simp
  then show ?thesis
    by (simp add: UpdatePrice_def validatePrice_def)
qed

section \<open>The use cases\<close>

text \<open>
  Claim C6. For a request whose SKU passes the shape check that opens
  \<^verbatim>\<open>CreateProduct\<close>: when the port reports that the SKU exists, the use case fails
  with \<^verbatim>\<open>ErrProductAlreadyExists\<close>, and when the existence check of the port fails,
  it fails with \<^verbatim>\<open>ErrFailedToCheckProductExistance\<close>; in both cases the existence
  check is the only call made on the port (\<^verbatim>\<open>Create\<close> is not called) and the store
  is as that check left it.
\<close>

theorem CreateProduct_existing_sku:
  assumes "validateSKU (create_SKU request) = None"
  shows
   "(ExistsBySKU productRepo (create_SKU request) s = (Inr True, s1) \<longrightarrow>
       CreateProduct productRepo unicodeUpper now request s =
         (Inl ErrProductAlreadyExists, s1, [Call_ExistsBySKU (create_SKU request)])) \<and>
    (ExistsBySKU productRepo (create_SKU request) s = (Inl err, s1) \<longrightarrow>
       CreateProduct productRepo unicodeUpper now request s =
         (Inl ErrFailedToCheckProductExistance, s1,
          [Call_ExistsBySKU (create_SKU request)]))"
  using assms by (simp add: CreateProduct_def)

theorem CreateProduct_existing_sku_witness:
  "CreateProduct GormProductRepository (\<lambda>s. s) 7 createRequest [existingProduct] =
     (Inl ErrProductAlreadyExists, [existingProduct], [Call_ExistsBySKU ''IPH15-128GB'']) \<and>
   CreateProduct failingRepository (\<lambda>s. s) 7 createRequest [existingProduct] =
     (Inl ErrFailedToCheckProductExistance, [existingProduct],
      [Call_ExistsBySKU ''IPH15-128GB''])"
proof -
  have sku: "create_SKU createRequest = ''IPH15-128GB''"
    by (simp add: createRequest_def)
  have shape: "validateSKU (create_SKU createRequest) = None"
    unfolding sku by code_simp
  have found: "ExistsBySKU GormProductRepository (create_SKU createRequest) [existingProduct] =
      (Inr True, [existingProduct])"
    unfolding sku by code_simp
  have failed: "ExistsBySKU failingRepository (create_SKU createRequest) [existingProduct] =
      (Inl (errors_New ''assert.AnError general error for testing''), [existingProduct])"
    by (simp add: failingRepository_def)
  from CreateProduct_existing_sku [OF shape, of GormProductRepository "[existingProduct]"
      "[existingProduct]" "\<lambda>s. s" 7] found
  have "CreateProduct GormProductRepository (\<lambda>s. s) 7 createRequest [existingProduct] =
      (Inl ErrProductAlreadyExists, [existingProduct],
       [Call_ExistsBySKU (create_SKU createRequest)])"
    by blast
  moreover
  from CreateProduct_existing_sku [OF shape, of failingRepository "[existingProduct]"
      "[existingProduct]" "\<lambda>s. s" 7 "errors_New ''assert.AnError general error for testing''"]
    failed
  have "CreateProduct failingRepository (\<lambda>s. s) 7 createRequest [existingProduct] =
      (Inl ErrFailedToCheckProductExistance, [existingProduct],
       [Call_ExistsBySKU (create_SKU createRequest)])"
    by blast
  ultimately show ?thesis by (simp add: sku)
qed

text \<open>
  On every path \<^verbatim>\<open>UpdateProduct\<close> makes one call on the port, \<^verbatim>\<open>GetByID\<close>, and
  leaves the store as that call left it.
\<close>

lemma UpdateProduct_port_calls:
  "snd (UpdateProduct productRepo nowPrice nowStock id0 request s) =
     (snd (GetByID productRepo id0 s), [Call_GetByID id0])"
proof (cases "GetByID productRepo id0 s")
  case (Pair r s1)
  show ?thesis
  proof (cases r)
    case (Inl err)
    with Pair show ?thesis by (simp add: UpdateProduct_def)
  next
    case (Inr existingProduct)
    with Pair show ?thesis
      by (cases "update_Price request"; cases "update_Stock request";
          cases "update_Name request = []"; cases "update_Description request = []";
          cases "update_Category request = []"; cases "update_Brand request = []";
          simp add: UpdateProduct_def UpdatePrice_def UpdateStock_def Let_def)
  qed
qed

text \<open>
  Claim C7, at an input where the code returns success and the port does not hold the
  update. On a store that holds the product of the test, the update request of the
  test succeeds and the response carries the new name, description, price and stock;
  the store is unchanged, and \<^verbatim>\<open>GetByID\<close> on it still returns the product as it
  was.
\<close>

theorem UpdateProduct_not_persisted:
  "UpdateProduct GormProductRepository 5 6 1 updateRequest [existingProduct] =
     (Inr (ProductToResponseDTO
            (existingProduct\<lparr>Name := ''iPhone 15 Pro'', Description := ''Updated description'',
               Price := 899.99, Stock := 150, UpdatedAt := 6\<rparr>)),
      [existingProduct], [Call_GetByID 1]) \<and>
   GetByID GormProductRepository 1 [existingProduct] = (Inr existingProduct, [existingProduct]) \<and>
   Name existingProduct = ''iPhone 15'' \<and> Price existingProduct = 999.99 \<and>
   Stock existingProduct = 100"
  by code_simp




text \<open>
  The calls \<^verbatim>\<open>CreateProduct\<close> makes on the port, and a run on a store that holds
  the product of the tests under the SKU \<^verbatim>\<open>IPH15-128GB\<close>.
\<close>

lemma NewProduct_SKU:
  assumes "NewProduct unicodeUpper now name description sku category brand price stock = Inr e"
  shows "SKU e = ToUpper unicodeUpper (TrimSpace sku)"
  using assms
  by (auto simp: NewProduct_def split: option.splits if_splits)

lemma CreateProduct_port_calls:
  assumes "validateSKU (create_SKU request) = None"
  shows "snd (snd (CreateProduct productRepo unicodeUpper now request s)) =
        [Call_ExistsBySKU (create_SKU request)] \<or>
      (\<exists>e. snd (snd (CreateProduct productRepo unicodeUpper now request s)) =
              [Call_ExistsBySKU (create_SKU request), Call_Create e] \<and>
            SKU e = ToUpper unicodeUpper (TrimSpace (create_SKU request)))"
proof (cases "ExistsBySKU productRepo (create_SKU request) s")
  case (Pair r s1)
  show ?thesis
  proof (cases r)
    case (Inl err)
    with Pair assms show ?thesis by (simp add: CreateProduct_def)
  next
    case (Inr found)
    show ?thesis
    proof (cases found)
      case True
      with Pair Inr assms show ?thesis by (simp add: CreateProduct_def)
    next
      case False
      show ?thesis
      proof (cases "ToEntity unicodeUpper now request")
        case (Inl err)
        with Pair \<open>r = Inr found\<close> False assms show ?thesis
          by (simp add: CreateProduct_def)
      next
        case entity: (Inr e)
        then have sku: "SKU e = ToUpper unicodeUpper (TrimSpace (create_SKU request))"
          unfolding ToEntity_def by (rule NewProduct_SKU)
        obtain r2 s2 where "Create productRepo e s1 = (r2, s2)"
          by (cases "Create productRepo e s1")
        with Pair Inr False entity assms
        have "snd (snd (CreateProduct productRepo unicodeUpper now request s)) =
            [Call_ExistsBySKU (create_SKU request), Call_Create e]"
          by (cases r2) (simp_all add: CreateProduct_def)
        with sku show ?thesis by blast
      qed
    qed
  qed
qed

lemma lowerCaseRequest_run:
  "create_SKU lowerCaseRequest \<noteq> SKU existingProduct"
  "ToUpper (\<lambda>s. s) (TrimSpace (create_SKU lowerCaseRequest)) = SKU existingProduct"
  "validateSKU (create_SKU lowerCaseRequest) = None"
  "ExistsBySKU GormProductRepository (create_SKU lowerCaseRequest) [existingProduct] =
     (Inr False, [existingProduct])"
  "CreateProduct GormProductRepository (\<lambda>s. s) 7 lowerCaseRequest [existingProduct] =
     (Inl ErrFailedToCreateProduct, [existingProduct],
      [Call_ExistsBySKU '' iph15-128gb '',
       Call_Create
         \<lparr>ID = 0, Name = ''iPhone 15'', Description = ''Latest Apple smartphone'',
          SKU = ''IPH15-128GB'', Price = 999.99, Category = ''Electronics'',
          Brand = ''Apple'', Stock = 100, Status = ''active'', CreatedAt = 7,
          UpdatedAt = 7\<rparr>])"
  by code_simp+

text \<open>
  Claim C10. \<^verbatim>\<open>CreateProduct\<close> on a request whose SKU passes the shape check calls
  \<^verbatim>\<open>ExistsBySKU\<close> first, with the SKU of the request as it stands, and if it goes on
  to call \<^verbatim>\<open>Create\<close>, the entity it passes carries the trimmed and upper-cased SKU.
  So there is a request whose SKU is not the SKU of a stored product but becomes it
  once trimmed and upper-cased, for which the existence check reports no product and
  \<^verbatim>\<open>Create\<close> is called on the port.
\<close>

theorem CreateProduct_raw_sku_precheck:
  "(validateSKU (create_SKU request) = None \<longrightarrow>
      snd (snd (CreateProduct productRepo unicodeUpper now request s)) =
        [Call_ExistsBySKU (create_SKU request)] \<or>
      (\<exists>e. snd (snd (CreateProduct productRepo unicodeUpper now request s)) =
              [Call_ExistsBySKU (create_SKU request), Call_Create e] \<and>
            SKU e = ToUpper unicodeUpper (TrimSpace (create_SKU request)))) \<and>
   (\<exists>req stored db.
      stored \<in> set db \<and>
      create_SKU req \<noteq> SKU stored \<and>
      ToUpper (\<lambda>s. s) (TrimSpace (create_SKU req)) = SKU stored \<and>
      fst (ExistsBySKU GormProductRepository (create_SKU req) db) = Inr False \<and>
      (\<exists>e. snd (snd (CreateProduct GormProductRepository (\<lambda>s. s) 7 req db)) =
              [Call_ExistsBySKU (create_SKU req), Call_Create e] \<and>
            SKU e = SKU stored))"
proof (intro conjI impI)
  assume "validateSKU (create_SKU request) = None"
  then show "snd (snd (CreateProduct productRepo unicodeUpper now request s)) =
        [Call_ExistsBySKU (create_SKU request)] \<or>
      (\<exists>e. snd (snd (CreateProduct productRepo unicodeUpper now request s)) =
              [Call_ExistsBySKU (create_SKU request), Call_Create e] \<and>
            SKU e = ToUpper unicodeUpper (TrimSpace (create_SKU request)))"
    by (rule CreateProduct_port_calls)
next
  have raw: "create_SKU lowerCaseRequest = '' iph15-128gb ''"
    by (simp add: lowerCaseRequest_def)
  have "existingProduct \<in> set [existingProduct]"
    by simp
  moreover note lowerCaseRequest_run(1,2)
  moreover have "fst (ExistsBySKU GormProductRepository (create_SKU lowerCaseRequest)
      [existingProduct]) = Inr False"
    by (simp add: lowerCaseRequest_run(4))
  moreover have "\<exists>e. snd (snd (CreateProduct GormProductRepository (\<lambda>s. s) 7 lowerCaseRequest
        [existingProduct])) = [Call_ExistsBySKU (create_SKU lowerCaseRequest), Call_Create e] \<and>
      SKU e = SKU existingProduct"
    unfolding lowerCaseRequest_run(5) raw by (simp add: existingProduct_def)
  ultimately show "\<exists>req stored db.
      stored \<in> set db \<and>
      create_SKU req \<noteq> SKU stored \<and>
      ToUpper (\<lambda>s. s) (TrimSpace (create_SKU req)) = SKU stored \<and>
      fst (ExistsBySKU GormProductRepository (create_SKU req) db) = Inr False \<and>
      (\<exists>e. snd (snd (CreateProduct GormProductRepository (\<lambda>s. s) 7 req db)) =
              [Call_ExistsBySKU (create_SKU req), Call_Create e] \<and>
            SKU e = SKU stored)"
    by blast
qed

theorem CreateProduct_raw_sku_precheck_witness:
  "snd (snd (CreateProduct GormProductRepository (\<lambda>s. s) 7 createRequest [])) =
     [Call_ExistsBySKU ''IPH15-128GB''] \<or>
   (\<exists>e. snd (snd (CreateProduct GormProductRepository (\<lambda>s. s) 7 createRequest [])) =
           [Call_ExistsBySKU ''IPH15-128GB'', Call_Create e] \<and>
         SKU e = ''IPH15-128GB'')"
proof -
  have sku: "create_SKU createRequest = ''IPH15-128GB''"
    by (simp add: createRequest_def)
  have shape: "validateSKU (create_SKU createRequest) = None"
    unfolding sku by code_simp
  have upper: "ToUpper (\<lambda>s. s) (TrimSpace ''IPH15-128GB'') = ''IPH15-128GB''"
    by code_simp
  from CreateProduct_raw_sku_precheck [of createRequest GormProductRepository "\<lambda>s. s" 7 "[]"]
    shape
  show ?thesis by (simp add: sku upper)
qed

end
